theory Spec2Isabelle
  imports Complex_Main "HOL-Library.Word"
begin

section \<open>Python values shared by both probes\<close>

text \<open>
  A Python \<open>str\<close> is a sequence of Unicode code points; \<open>len\<close> counts code points.
  A Python \<open>bytes\<close> object is a sequence of integers in \<open>range(256)\<close>.
  Exceptions are values of \<open>py_error\<close>; a computation that may raise returns
  \<open>py_error + 'a\<close> with \<open>Inl\<close> for the exception.
\<close>

type_synonym pystr = "nat list"
type_synonym byte = "8 word"

datatype py_error =
    ValueError pystr
  | TypeError pystr
  | UnicodeEncodeError nat
  | OSError pystr

definition S :: "string \<Rightarrow> pystr" where
  \<comment> \<open>an ASCII literal of the source, as a Python \<open>str\<close>\<close>
  "S s = map of_char s"

fun dec_acc :: "nat \<Rightarrow> nat \<Rightarrow> pystr \<Rightarrow> pystr" where
  \<comment> \<open>decimal digits of \<open>n\<close> in front of \<open>acc\<close>; the digit \<open>d\<close> is the code point
      \<open>48 + d\<close>; the first argument bounds the recursion\<close>
  "dec_acc 0 n acc = (48 + n mod 10) # acc"
| "dec_acc (Suc fuel) n acc =
     (if n < 10 then (48 + n) # acc else dec_acc fuel (n div 10) ((48 + n mod 10) # acc))"

definition dec :: "nat \<Rightarrow> pystr" where
  \<comment> \<open>\<open>str(n)\<close> for a non-negative integer (\<open>n\<close> has at most \<open>n + 1\<close> digits)\<close>
  "dec n = dec_acc n n []"

section \<open>snmp\_enum.py: the raw UDP probe\<close>

subsection \<open>Library operations used by \<open>raw_udp_check\<close>\<close>

definition utf8_char :: "nat \<Rightarrow> py_error + byte list" where
  \<comment> \<open>UTF-8 of one code point; a surrogate (U+D800..U+DFFF) cannot be encoded.
      Python code points are below \<open>0x110000\<close>.\<close>
  "utf8_char c =
     (if c < 0x80 then Inr [of_nat c]
      else if c < 0x800 then Inr [of_nat (0xC0 + c div 64), of_nat (0x80 + c mod 64)]
      else if 0xD800 \<le> c \<and> c < 0xE000 then Inl (UnicodeEncodeError c)
      else if c < 0x10000 then
        Inr [of_nat (0xE0 + c div 4096), of_nat (0x80 + (c div 64) mod 64),
             of_nat (0x80 + c mod 64)]
      else
        Inr [of_nat (0xF0 + (c div 262144) mod 8), of_nat (0x80 + (c div 4096) mod 64),
             of_nat (0x80 + (c div 64) mod 64), of_nat (0x80 + c mod 64)])"

fun encode_utf8 :: "pystr \<Rightarrow> py_error + byte list" where
  \<comment> \<open>\<open>s.encode('utf-8')\<close>, also \<open>s.encode()\<close>\<close>
  "encode_utf8 [] = Inr []"
| "encode_utf8 (c # cs) =
     (case utf8_char c of
        Inl e \<Rightarrow> Inl e
      | Inr bs \<Rightarrow> (case encode_utf8 cs of Inl e \<Rightarrow> Inl e | Inr rest \<Rightarrow> Inr (bs @ rest)))"

definition hexval :: "char \<Rightarrow> nat option" where
  "hexval c =
     (let n = (of_char c :: nat) in
      if 48 \<le> n \<and> n \<le> 57 then Some (n - 48)
      else if 97 \<le> n \<and> n \<le> 102 then Some (n - 87)
      else if 65 \<le> n \<and> n \<le> 70 then Some (n - 55)
      else None)"

fun fromhex :: "string \<Rightarrow> py_error + byte list" where
  \<comment> \<open>\<open>bytes.fromhex\<close> on a string without white space: two hex digits per byte\<close>
  "fromhex [] = Inr []"
| "fromhex [c] = Inl (ValueError (S ''non-hexadecimal number found in fromhex() arg''))"
| "fromhex (a # b # cs) =
     (case (hexval a, hexval b) of
        (Some x, Some y) \<Rightarrow>
          (case fromhex cs of Inl e \<Rightarrow> Inl e | Inr r \<Rightarrow> Inr (of_nat (16 * x + y) # r))
      | _ \<Rightarrow> Inl (ValueError (S ''non-hexadecimal number found in fromhex() arg'')))"

definition bytes_of_int :: "nat \<Rightarrow> py_error + byte list" where
  \<comment> \<open>\<open>bytes([n])\<close>: one byte, or ValueError when \<open>n\<close> is not in \<open>range(256)\<close>\<close>
  "bytes_of_int n =
     (if n < 256 then Inr [of_nat n] else Inl (ValueError (S ''bytes must be in range(0, 256)'')))"

fun starts_with :: "'a list \<Rightarrow> 'a list \<Rightarrow> bool" where
  \<comment> \<open>\<open>starts_with needle hay\<close>: \<open>hay\<close> begins with \<open>needle\<close>\<close>
  "starts_with [] hay = True"
| "starts_with (x # xs) [] = False"
| "starts_with (x # xs) (y # ys) = (x = y \<and> starts_with xs ys)"

fun seq_contains :: "'a list \<Rightarrow> 'a list \<Rightarrow> bool" where
  \<comment> \<open>\<open>needle in hay\<close> on bytes and on \<open>str\<close>: \<open>needle\<close> occurs as a contiguous run\<close>
  "seq_contains needle [] = starts_with needle []"
| "seq_contains needle (y # ys) = (starts_with needle (y # ys) \<or> seq_contains needle ys)"

datatype pyitem = IntItem nat | StrItem pystr

fun str_join :: "nat \<Rightarrow> pyitem list \<Rightarrow> py_error + pystr" where
  \<comment> \<open>\<open>''.join(items)\<close>: every item must be a \<open>str\<close>; the first argument is the index
      of the head of the list, for the message of the TypeError\<close>
  "str_join i [] = Inr []"
| "str_join i (IntItem n # xs) =
     Inl (TypeError (S ''sequence item '' @ dec i @ S '': expected str instance, int found''))"
| "str_join i (StrItem s # xs) =
     (case str_join (Suc i) xs of Inl e \<Rightarrow> Inl e | Inr r \<Rightarrow> Inr (s @ r))"

definition in_class :: "nat \<Rightarrow> bool" where
  \<comment> \<open>the character class \<open>[ -~]\<close>\<close>
  "in_class c = (32 \<le> c \<and> c \<le> 126)"

fun runs_from :: "pystr \<Rightarrow> pystr \<Rightarrow> pystr list" where
  \<comment> \<open>the maximal runs of class characters of length four or more, left to right;
      the first argument is the run being read\<close>
  "runs_from cur [] = (if 4 \<le> length cur then [cur] else [])"
| "runs_from cur (c # cs) =
     (if in_class c then runs_from (cur @ [c]) cs
      else (if 4 \<le> length cur then [cur] else []) @ runs_from [] cs)"

definition findall_runs :: "pystr \<Rightarrow> pystr list" where
  \<comment> \<open>\<open>re.findall(r'[ -~]{4,}', s)\<close>\<close>
  "findall_runs s = runs_from [] s"

subsection \<open>The environment of \<open>raw_udp_check\<close>\<close>

datatype udp_exchange =
    Timeout
  | SocketError pystr
  | Received "byte list"

record udp_env =
  socket_setup :: "int \<Rightarrow> py_error option"
  exchange :: "pystr \<Rightarrow> int \<Rightarrow> byte list \<Rightarrow> udp_exchange"

text \<open>
  \<open>socket_setup timeout\<close> is \<open>socket.socket(...)\<close> and \<open>sock.settimeout(timeout)\<close> (lines 84-85),
  which stand outside the \<open>try\<close>: \<open>None\<close> when both return, \<open>Some e\<close> when one raises.
  \<open>exchange target port payload\<close> is \<open>sock.sendto(payload, (target, port))\<close> followed by
  \<open>sock.recvfrom(4096)\<close>: \<open>Timeout\<close> when either raises \<open>socket.timeout\<close>,
  \<open>SocketError m\<close> when either raises another exception \<open>e\<close> with \<open>str(e) = m\<close>,
  \<open>Received data\<close> when \<open>recvfrom\<close> returns \<open>data\<close>.
\<close>

record raw_run =
  sent :: "byte list option"
  outcome :: "py_error + (bool \<times> pystr)"

text \<open>
  \<open>sent\<close> is the argument of \<open>sendto\<close> when the call is reached; \<open>outcome\<close> is the
  returned pair \<open>(ok, info)\<close>, or the exception that leaves the function.
\<close>

subsection \<open>\<open>raw_udp_check\<close>\<close>

definition suffix_hex :: string where
  "suffix_hex = ''a01c02040eb376f4020100020100300e300c06082b060102010105000500''"

definition build_payload :: "pystr \<Rightarrow> py_error + byte list" where
  \<comment> \<open>lines 70-82\<close>
  "build_payload community =
     (case encode_utf8 community of
        Inl e \<Rightarrow> Inl e
      | Inr community_bytes \<Rightarrow>
          (let comm_len = length community_bytes in
           case fromhex suffix_hex of
             Inl e \<Rightarrow> Inl e
           | Inr rest \<Rightarrow>
               (case bytes_of_int comm_len of
                  Inl e \<Rightarrow> Inl e
                | Inr cl \<Rightarrow>
                    (let inner = [0x02, 0x01, 0x00] @ ([0x04] @ cl) @ community_bytes @ rest;
                         total_len = length inner
                     in case bytes_of_int total_len of
                          Inl e \<Rightarrow> Inl e
                        | Inr ll \<Rightarrow> Inr ([0x30] @ ll @ inner)))))"

definition printable_items :: "byte list \<Rightarrow> pyitem list" where
  \<comment> \<open>the generator of line 96: \<open>ch if 32 <= ch < 127 else '.'\<close> for the integers of
      \<open>data\<close>; a byte in range is yielded as the integer it is\<close>
  "printable_items data =
     map (\<lambda>ch. if 32 \<le> unat ch \<and> unat ch < 127 then IntItem (unat ch) else StrItem (S ''.''))
       data"

definition printable_byte :: "byte \<Rightarrow> bool" where
  \<comment> \<open>the test \<open>32 <= ch < 127\<close> of line 96\<close>
  "printable_byte b = (32 \<le> unat b \<and> unat b < 127)"

definition classify_reply :: "pystr \<Rightarrow> byte list \<Rightarrow> py_error + (bool \<times> pystr)" where
  \<comment> \<open>lines 96-105\<close>
  "classify_reply community data =
     (case str_join 0 (printable_items data) of
        Inl e \<Rightarrow> Inl e
      | Inr printable \<Rightarrow>
          (let runs = findall_runs printable;
               snippet = (case runs of r # _ \<Rightarrow> r | [] \<Rightarrow> take 200 printable)
           in case encode_utf8 community of
                Inl e \<Rightarrow> Inl e
              | Inr needle \<Rightarrow>
                  if seq_contains needle data then
                    Inr (True, S ''response contains community '' @ [0x27] @ community @ [0x27]
                               @ S ''. Printable snippet: '' @ snippet)
                  else if runs \<noteq> [] then
                    Inr (True, S ''response received (no community string visible): '' @ snippet)
                  else
                    Inr (False, S ''received '' @ dec (length data)
                                @ S '' bytes but no printable content'')))"

definition raw_udp_check :: "udp_env \<Rightarrow> pystr \<Rightarrow> int \<Rightarrow> pystr \<Rightarrow> int \<Rightarrow> raw_run" where
  \<comment> \<open>lines 66-105\<close>
  "raw_udp_check env target port community timeout =
     (case build_payload community of
        Inl e \<Rightarrow> \<lparr>sent = None, outcome = Inl e\<rparr>
      | Inr payload \<Rightarrow>
          (case socket_setup env timeout of
             Some e \<Rightarrow> \<lparr>sent = None, outcome = Inl e\<rparr>
           | None \<Rightarrow>
               (case exchange env target port payload of
                  Timeout \<Rightarrow> \<lparr>sent = Some payload, outcome = Inr (False, S ''no response (timeout)'')\<rparr>
                | SocketError m \<Rightarrow>
                    \<lparr>sent = Some payload, outcome = Inr (False, S ''socket error: '' @ m)\<rparr>
                | Received data \<Rightarrow>
                    \<lparr>sent = Some payload, outcome = classify_reply community data\<rparr>)))"

section \<open>snmp\_enum.py: the library probe\<close>

fun dict_set :: "'k \<Rightarrow> 'v \<Rightarrow> ('k \<times> 'v) list \<Rightarrow> ('k \<times> 'v) list" where
  \<comment> \<open>\<open>d[k] = v\<close> on an insertion-ordered dict: a present key keeps its place\<close>
  "dict_set k v [] = [(k, v)]"
| "dict_set k v (p # d) = (if fst p = k then (k, v) # d else p # dict_set k v d)"

fun dict_get :: "('k \<times> 'v) list \<Rightarrow> 'k \<Rightarrow> 'v option" where
  "dict_get [] k = None"
| "dict_get (p # d) k = (if fst p = k then Some (snd p) else dict_get d k)"

definition dict_has :: "'k \<Rightarrow> ('k \<times> 'v) list \<Rightarrow> bool" where
  \<comment> \<open>\<open>k in d\<close>\<close>
  "dict_has k d = (dict_get d k \<noteq> None)"

datatype varbind = Pretty pystr | PrettyRaises

datatype get_reply =
    GetRaises
  | GetReply bool bool "varbind list"

text \<open>
  The reply to one \<open>getCmd\<close>: \<open>GetRaises\<close> when building the command or \<open>next(iterator)\<close>
  raises; \<open>GetReply errorIndication errorStatus varBinds\<close> otherwise, the first two by
  their truth value. A variable binding is \<open>Pretty s\<close> when unpacking it and
  \<open>str(v.prettyPrint())\<close> give \<open>s\<close>, and \<open>PrettyRaises\<close> when that raises.
\<close>

record snmp_env =
  pysnmp_installed :: bool
  get_cmd :: "pystr \<Rightarrow> int \<Rightarrow> pystr \<Rightarrow> int \<Rightarrow> pystr \<Rightarrow> get_reply"

text \<open>\<open>get_cmd env target port community timeout oid\<close> is the reply for \<open>oid\<close>.\<close>

definition oids :: "(pystr \<times> pystr) list" where
  "oids =
     [(S ''sysDescr'', S ''1.3.6.1.2.1.1.1.0''),
      (S ''sysObjectID'', S ''1.3.6.1.2.1.1.2.0''),
      (S ''sysUpTime'', S ''1.3.6.1.2.1.1.3.0''),
      (S ''sysContact'', S ''1.3.6.1.2.1.1.4.0''),
      (S ''sysName'', S ''1.3.6.1.2.1.1.5.0''),
      (S ''sysLocation'', S ''1.3.6.1.2.1.1.6.0'')]"

record enum_state =
  results :: "(pystr \<times> pystr) list"
  success_flag :: bool
  requested :: "pystr list"

fun store_varbinds :: "pystr \<Rightarrow> varbind list \<Rightarrow> enum_state \<Rightarrow> enum_state" where
  \<comment> \<open>lines 54-56; an exception ends the work on this OID and keeps what was stored\<close>
  "store_varbinds name [] st = st"
| "store_varbinds name (PrettyRaises # vs) st = st"
| "store_varbinds name (Pretty v # vs) st =
     store_varbinds name vs (st\<lparr>results := dict_set name v (results st), success_flag := True\<rparr>)"

definition query_oid ::
  "snmp_env \<Rightarrow> pystr \<Rightarrow> int \<Rightarrow> pystr \<Rightarrow> int \<Rightarrow> pystr \<times> pystr \<Rightarrow> enum_state \<Rightarrow> enum_state" where
  \<comment> \<open>the body of the loop, lines 40-58\<close>
  "query_oid env target port community timeout item st =
     (let st1 = st\<lparr>requested := requested st @ [snd item]\<rparr> in
      case get_cmd env target port community timeout (snd item) of
        GetRaises \<Rightarrow> st1
      | GetReply errorIndication errorStatus varBinds \<Rightarrow>
          if errorIndication then st1
          else if errorStatus then st1
          else store_varbinds (fst item) varBinds st1)"

fun enum_loop ::
  "snmp_env \<Rightarrow> pystr \<Rightarrow> int \<Rightarrow> pystr \<Rightarrow> int \<Rightarrow> (pystr \<times> pystr) list \<Rightarrow> enum_state \<Rightarrow> enum_state" where
  "enum_loop env target port community timeout [] st = st"
| "enum_loop env target port community timeout (item # items) st =
     enum_loop env target port community timeout items
       (query_oid env target port community timeout item st)"

fun join_lines :: "pystr list \<Rightarrow> pystr" where
  \<comment> \<open>\<open>"\n".join(lines)\<close>\<close>
  "join_lines [] = []"
| "join_lines [l] = l"
| "join_lines (l # m # ls) = l @ [10] @ join_lines (m # ls)"

record enum_run =
  final :: enum_state
  returned :: "bool option \<times> pystr"

text \<open>
  \<open>returned\<close> is the pair the function returns, its first component \<open>None\<close>, \<open>True\<close>
  or \<open>False\<close>; \<open>final\<close> is the state of the locals \<open>results\<close> and \<open>success\<close> at
  the return, with the OIDs requested so far.
\<close>

definition try_pysnmp_enum :: "snmp_env \<Rightarrow> pystr \<Rightarrow> int \<Rightarrow> pystr \<Rightarrow> int \<Rightarrow> enum_run" where
  \<comment> \<open>lines 17-64\<close>
  "try_pysnmp_enum env target port community timeout =
     (if \<not> pysnmp_installed env then
        \<lparr>final = \<lparr>results = [], success_flag = False, requested = []\<rparr>,
         returned = (None, S ''pysnmp not installed'')\<rparr>
      else
        (let st = enum_loop env target port community timeout oids
                    \<lparr>results = [], success_flag = False, requested = []\<rparr>
         in if success_flag st then
              (let formatted = join_lines (map (\<lambda>kv. fst kv @ S '': '' @ snd kv) (results st))
               in \<lparr>final = st,
                   returned = (Some True, S ''SNMPv1 enumeration succeeded:'' @ [10] @ formatted)\<rparr>)
            else
              \<lparr>final = st, returned = (Some False, S ''no valid responses for standard OIDs'')\<rparr>))"

subsection \<open>What a reply yields\<close>

text \<open>
  The next three definitions are not code of the probe: they say which value a reply
  yields for its OID, so that the loop can be compared with it.
\<close>

fun stored_value :: "varbind list \<Rightarrow> pystr option" where
  \<comment> \<open>the value of the last variable binding before the first that raises\<close>
  "stored_value [] = None"
| "stored_value (PrettyRaises # vs) = None"
| "stored_value (Pretty v # vs) = (case stored_value vs of None \<Rightarrow> Some v | Some w \<Rightarrow> Some w)"

definition value_of_reply :: "get_reply \<Rightarrow> pystr option" where
  \<comment> \<open>\<open>None\<close> for an exception, an error indication, an error status or no binding\<close>
  "value_of_reply r =
     (case r of
        GetRaises \<Rightarrow> None
      | GetReply errorIndication errorStatus varBinds \<Rightarrow>
          if errorIndication \<or> errorStatus then None else stored_value varBinds)"

definition answered ::
  "snmp_env \<Rightarrow> pystr \<Rightarrow> int \<Rightarrow> pystr \<Rightarrow> int \<Rightarrow> (pystr \<times> pystr) list \<Rightarrow> (pystr \<times> pystr) list" where
  \<comment> \<open>the names of the OIDs whose reply yields a value, with the value, in the order of
      the table\<close>
  "answered env target uport community timeout items =
     List.map_filter
       (\<lambda>item. map_option (Pair (fst item))
                 (value_of_reply (get_cmd env target uport community timeout (snd item))))
       items"

section \<open>ldap\_anonymous\_check.py\<close>

subsection \<open>Values and environment\<close>

datatype pyval =
    PNone
  | PBool bool
  | PStr pystr
  | PList "pyval list"
  | PDict "(pystr \<times> pyval) list"

datatype duration = Elapsed real real

text \<open>
  \<open>Elapsed t1 t0\<close> stands for the float \<open>round(t1 - t0, 4)\<close> of two readings of
  \<open>time.time()\<close>; the rounding of floats is not interpreted.
\<close>

datatype 'a outcome = Returns 'a | Raises pystr

text \<open>
  What a call into the library does in this run: \<open>Returns v\<close>, or \<open>Raises m\<close> when it
  raises an \<open>Exception\<close> \<open>e\<close> with \<open>str(e) = m\<close>.
\<close>

datatype time_site =
  AtStart | AtTcpStart | AtTcpEnd | AtTcpFail | AtServerFail | AtBindStart | AtBindEnd | AtFinally

record ldap_entry =
  entry_attributes_as_dict :: "(pystr \<times> pyval list) list outcome"
  entry_str :: "pystr outcome"

record ldap_env =
  clock :: "time_site \<Rightarrow> real"
  create_connection :: "unit outcome"
  new_server :: "unit outcome"
  new_connection :: "unit outcome"
  conn_open :: "bool outcome"
  conn_start_tls :: "bool outcome"
  conn_last_error :: pystr
  conn_bind :: "bool outcome"
  bind_result :: pystr
  server_info_present :: "bool outcome"
  info_to_dict :: "pyval outcome"
  schema_str :: "pystr outcome"
  server_str :: "pystr outcome"
  root_search :: "bool outcome"
  conn_entries :: "ldap_entry list outcome"
  search_result :: pyval
  sample_search :: "pyval \<Rightarrow> bool outcome"

text \<open>
  One field for each call that leaves the program, in the order of the source:
  \<open>time.time()\<close> at each of its call sites; \<open>socket.create_connection\<close> with the exit of
  its \<open>with\<close> block; \<open>Server(...)\<close>; \<open>Connection(...)\<close>; the truth values of
  \<open>conn.open()\<close>, \<open>conn.start_tls()\<close> and \<open>conn.bind()\<close>; \<open>conn.last_error\<close> and
  \<open>conn.result\<close> as the f-strings of lines 77 and 83 format them; the truth value of
  \<open>server.info\<close>; \<open>server.info.to_dict()\<close>; \<open>str(server.schema)\<close>; \<open>str(server)\<close>;
  the truth value of the root DSE search; \<open>conn.entries\<close>; \<open>conn.result\<close> of line 117;
  the truth value of the search at the base given.

  \<open>Connection.open\<close> of ldap3 has no return value: when it does not raise it returns
  \<open>None\<close>, whose truth value is \<open>False\<close>. A run against ldap3 therefore has
  \<open>conn_open = Returns False\<close> or \<open>conn_open = Raises m\<close>.
\<close>

datatype event =
    EvTcpConnect
  | EvServer
  | EvConnection
  | EvOpen
  | EvStartTls
  | EvBind
  | EvRootSearch
  | EvSampleSearch pyval
  | EvUnbind

record ldap_result =
  host :: pystr
  port :: int
  use_ldaps :: bool
  starttls :: bool
  success :: bool
  error :: "pystr option"
  metadata :: "(pystr \<times> pyval) list"
  timings :: "(pystr \<times> duration) list"

record ldap_run =
  res :: ldap_result
  trace :: "event list"

text \<open>
  \<open>res\<close> is the dict returned; \<open>trace\<close> lists, in order, the calls made that open a
  socket or use the connection.
\<close>

subsection \<open>The metadata harvest (lines 88-136)\<close>

definition harvest_server_info :: "ldap_env \<Rightarrow> (pystr \<times> pyval) list \<Rightarrow> (pystr \<times> pyval) list" where
  \<comment> \<open>lines 88-103\<close>
  "harvest_server_info env md =
     (case server_info_present env of
        Raises m \<Rightarrow> dict_set (S ''server_info_error'') (PStr m) md
      | Returns False \<Rightarrow> dict_set (S ''server_info'') (PDict []) md
      | Returns True \<Rightarrow>
          (case info_to_dict env of
             Returns d \<Rightarrow> dict_set (S ''server_info'') d md
           | Raises _ \<Rightarrow>
               (case schema_str env of
                  Raises m \<Rightarrow> dict_set (S ''server_info_error'') (PStr m) md
                | Returns sch \<Rightarrow>
                    (case server_str env of
                       Raises m \<Rightarrow> dict_set (S ''server_info_error'') (PStr m) md
                     | Returns nm \<Rightarrow>
                         dict_set (S ''server_info'')
                           (PDict [(S ''schema'', PStr sch), (S ''server_name'', PStr nm)]) md))))"

definition attrs_val :: "(pystr \<times> pyval list) list \<Rightarrow> pyval" where
  \<comment> \<open>the dict of an entry: attribute name to list of values\<close>
  "attrs_val d = PDict (map (\<lambda>kv. (fst kv, PList (snd kv))) d)"

definition harvest_root_dse :: "ldap_env \<Rightarrow> (pystr \<times> pyval) list \<Rightarrow> (pystr \<times> pyval) list" where
  \<comment> \<open>lines 106-119\<close>
  "harvest_root_dse env md =
     (case root_search env of
        Raises m \<Rightarrow> dict_set (S ''rootDSE_error'') (PStr m) md
      | Returns False \<Rightarrow> dict_set (S ''rootDSE_search_result'') (search_result env) md
      | Returns True \<Rightarrow>
          (case conn_entries env of
             Raises m \<Rightarrow> dict_set (S ''rootDSE_error'') (PStr m) md
           | Returns [] \<Rightarrow> dict_set (S ''rootDSE_error'') (PStr (S ''list index out of range'')) md
           | Returns (entry # _) \<Rightarrow>
               (case entry_attributes_as_dict entry of
                  Returns d \<Rightarrow> dict_set (S ''rootDSE'') (attrs_val d) md
                | Raises _ \<Rightarrow>
                    (case entry_str entry of
                       Returns s \<Rightarrow> dict_set (S ''rootDSE'') (PStr s) md
                     | Raises m \<Rightarrow> dict_set (S ''rootDSE_error'') (PStr m) md))))"

definition no_get :: "string \<Rightarrow> pystr" where
  \<comment> \<open>the message of the AttributeError of \<open>x.get\<close> on a value of the type named;
      \<open>0x27\<close> is the single quote\<close>
  "no_get ty = [0x27] @ S ty @ [0x27] @ S '' object has no attribute '' @ [0x27] @ S ''get'' @ [0x27]"

definition get_naming :: "(pystr \<times> pyval) list \<Rightarrow> pyval outcome" where
  \<comment> \<open>line 123: \<open>result["metadata"].get("rootDSE", {}).get("namingContexts", [])\<close>;
      only a dict has \<open>get\<close>\<close>
  "get_naming md =
     (case dict_get md (S ''rootDSE'') of
        None \<Rightarrow> Returns (PList [])
      | Some (PDict d) \<Rightarrow>
          (case dict_get d (S ''namingContexts'') of None \<Rightarrow> Returns (PList []) | Some v \<Rightarrow> Returns v)
      | Some (PStr _) \<Rightarrow> Raises (no_get ''str'')
      | Some (PList _) \<Rightarrow> Raises (no_get ''list'')
      | Some (PBool _) \<Rightarrow> Raises (no_get ''bool'')
      | Some PNone \<Rightarrow> Raises (no_get ''NoneType''))"

definition truthy :: "pyval \<Rightarrow> bool" where
  \<comment> \<open>the truth value of \<open>if naming:\<close>\<close>
  "truthy v =
     (case v of
        PNone \<Rightarrow> False
      | PBool b \<Rightarrow> b
      | PStr s \<Rightarrow> s \<noteq> []
      | PList l \<Rightarrow> l \<noteq> []
      | PDict d \<Rightarrow> d \<noteq> [])"

definition index0 :: "pyval \<Rightarrow> pyval outcome" where
  \<comment> \<open>\<open>naming[0]\<close>, for a value that is true: the first item of a list, the first
      character of a string; a dict with string keys has no key \<open>0\<close> (KeyError), and
      a bool or None is not subscriptable (TypeError)\<close>
  "index0 v =
     (case v of
        PList (x # _) \<Rightarrow> Returns x
      | PList [] \<Rightarrow> Raises (S ''list index out of range'')
      | PStr (c # _) \<Rightarrow> Returns (PStr [c])
      | PStr [] \<Rightarrow> Raises (S ''string index out of range'')
      | PDict _ \<Rightarrow> Raises (S ''0'')
      | PBool _ \<Rightarrow> Raises ([0x27] @ S ''bool'' @ [0x27] @ S '' object is not subscriptable'')
      | PNone \<Rightarrow> Raises ([0x27] @ S ''NoneType'' @ [0x27] @ S '' object is not subscriptable''))"

definition harvest_sample_base ::
  "ldap_env \<Rightarrow> (pystr \<times> pyval) list \<Rightarrow> (pystr \<times> pyval) list \<times> event list" where
  \<comment> \<open>lines 122-136\<close>
  "harvest_sample_base env md =
     (case get_naming md of
        Raises m \<Rightarrow> (dict_set (S ''sample_base_error'') (PStr m) md, [])
      | Returns naming \<Rightarrow>
          if truthy naming then
            (case index0 naming of
               Raises m \<Rightarrow> (dict_set (S ''sample_base_error'') (PStr m) md, [])
             | Returns base \<Rightarrow>
                 (case sample_search env base of
                    Raises m \<Rightarrow>
                      (dict_set (S ''sample_base_error'') (PStr m) md, [EvSampleSearch base])
                  | Returns True \<Rightarrow>
                      (dict_set (S ''sample_base'') base
                         (dict_set (S ''sample_base_found'') (PBool True) md),
                       [EvSampleSearch base])
                  | Returns False \<Rightarrow>
                      (dict_set (S ''sample_base_found'') (PBool False) md,
                       [EvSampleSearch base])))
          else (dict_set (S ''namingContexts_missing'') (PBool True) md, []))"

subsection \<open>\<open>try_anonymous_bind\<close>\<close>

record session =
  sres :: ldap_result
  strace :: "event list"
  conn_made :: bool
  raised :: "pystr option"

text \<open>
  The state at the end of the body of the \<open>try\<close> of lines 61-139: the result dict, the
  calls made, whether \<open>conn\<close> was assigned, and the exception that left the body, if any.
\<close>

definition bind_phase :: "ldap_env \<Rightarrow> ldap_result \<Rightarrow> event list \<Rightarrow> session" where
  \<comment> \<open>lines 79-139\<close>
  "bind_phase env result tr =
     (case conn_bind env of
        Raises m \<Rightarrow> \<lparr>sres = result, strace = tr @ [EvBind], conn_made = True, raised = Some m\<rparr>
      | Returns False \<Rightarrow>
          \<lparr>sres = result\<lparr>success := False,
                          error := Some (S ''Bind failed: '' @ bind_result env),
                          timings := dict_set (S ''bind_s'')
                            (Elapsed (clock env AtBindEnd) (clock env AtBindStart)) (timings result)\<rparr>,
           strace = tr @ [EvBind], conn_made = True, raised = None\<rparr>
      | Returns True \<Rightarrow>
          (let md1 = harvest_server_info env (metadata result);
               md2 = harvest_root_dse env md1;
               h3 = harvest_sample_base env md2
           in \<lparr>sres = result\<lparr>success := True,
                              metadata := fst h3,
                              timings := dict_set (S ''bind_s'')
                                (Elapsed (clock env AtBindEnd) (clock env AtBindStart))
                                (timings result)\<rparr>,
               strace = tr @ [EvBind, EvRootSearch] @ snd h3, conn_made = True, raised = None\<rparr>))"

definition ldap_session :: "ldap_env \<Rightarrow> ldap_result \<Rightarrow> bool \<Rightarrow> bool \<Rightarrow> session" where
  \<comment> \<open>lines 62-139, the body of the \<open>try\<close>\<close>
  "ldap_session env result use_ldaps_arg starttls_arg =
     (case new_connection env of
        Raises m \<Rightarrow> \<lparr>sres = result, strace = [EvConnection], conn_made = False, raised = Some m\<rparr>
      | Returns _ \<Rightarrow>
          (case conn_open env of
             Raises m \<Rightarrow>
               \<lparr>sres = result, strace = [EvConnection, EvOpen], conn_made = True, raised = Some m\<rparr>
           | Returns False \<Rightarrow>
               \<lparr>sres = result, strace = [EvConnection, EvOpen], conn_made = True,
                raised = Some (S ''Failed to open connection to server'')\<rparr>
           | Returns True \<Rightarrow>
               if starttls_arg then
                 (if use_ldaps_arg then
                    \<lparr>sres = result, strace = [EvConnection, EvOpen], conn_made = True,
                     raised = Some (S ''Cannot use StartTLS when using LDAPS (use one or the other).'')\<rparr>
                  else
                    (case conn_start_tls env of
                       Raises m \<Rightarrow>
                         \<lparr>sres = result, strace = [EvConnection, EvOpen, EvStartTls],
                          conn_made = True, raised = Some m\<rparr>
                     | Returns False \<Rightarrow>
                         \<lparr>sres = result, strace = [EvConnection, EvOpen, EvStartTls],
                          conn_made = True,
                          raised = Some (S ''StartTLS failed: '' @ conn_last_error env)\<rparr>
                     | Returns True \<Rightarrow> bind_phase env result [EvConnection, EvOpen, EvStartTls]))
               else bind_phase env result [EvConnection, EvOpen]))"

definition try_anonymous_bind ::
  "ldap_env \<Rightarrow> pystr \<Rightarrow> int \<Rightarrow> bool \<Rightarrow> bool \<Rightarrow> int \<Rightarrow> ldap_run" where
  \<comment> \<open>lines 28-151\<close>
  "try_anonymous_bind env host_arg port_arg use_ldaps_arg starttls_arg timeout =
     (let result = \<lparr>host = host_arg, port = port_arg, use_ldaps = use_ldaps_arg,
                    starttls = starttls_arg, success = False, error = None,
                    metadata = [], timings = []\<rparr>
      in case create_connection env of
           Raises m \<Rightarrow>
             \<lparr>res = result\<lparr>error := Some (S ''TCP connection failed: '' @ m),
                           timings := dict_set (S ''total_s'')
                             (Elapsed (clock env AtTcpFail) (clock env AtStart)) (timings result)\<rparr>,
              trace = [EvTcpConnect]\<rparr>
         | Returns _ \<Rightarrow>
             (let result1 = result\<lparr>timings := dict_set (S ''tcp_connect_s'')
                              (Elapsed (clock env AtTcpEnd) (clock env AtTcpStart)) (timings result)\<rparr>
              in case new_server env of
                   Raises m \<Rightarrow>
                     \<lparr>res = result1\<lparr>error := Some (S ''Server object creation failed: '' @ m),
                                    timings := dict_set (S ''total_s'')
                                      (Elapsed (clock env AtServerFail) (clock env AtStart))
                                      (timings result1)\<rparr>,
                      trace = [EvTcpConnect, EvServer]\<rparr>
                 | Returns _ \<Rightarrow>
                     (let s = ldap_session env result1 use_ldaps_arg starttls_arg;
                          result2 = (case raised s of
                                       None \<Rightarrow> sres s
                                     | Some m \<Rightarrow>
                                         (sres s)\<lparr>error :=
                                           Some (S ''Exception during LDAP operations: '' @ m)\<rparr>)
                      in \<lparr>res = result2\<lparr>timings := dict_set (S ''total_s'')
                                          (Elapsed (clock env AtFinally) (clock env AtStart))
                                          (timings result2)\<rparr>,
                          trace = [EvTcpConnect, EvServer] @ strace s
                                  @ (if conn_made s then [EvUnbind] else [])\<rparr>)))"

subsection \<open>\<open>main\<close> (lines 153-207)\<close>









section \<open>Reading the packet: BER after X.690\<close>

text \<open>
  The program never decodes a packet. The definitions of this section are the reference
  reading of BER (ITU-T X.690, 8.1.3 for lengths, 8.19 for object identifiers) and of
  the GetRequest PDU of SNMPv1 (RFC 1157), against which the bytes the program builds
  are compared.
\<close>

definition be_nat :: "byte list \<Rightarrow> nat" where
  \<comment> \<open>a big-endian unsigned number\<close>
  "be_nat bs = foldl (\<lambda>a b. 256 * a + unat b) 0 bs"

definition ber_length :: "byte list \<Rightarrow> (nat \<times> byte list) option" where
  \<comment> \<open>the length field at the head of the bytes, and what follows it: one byte below
      \<open>0x80\<close> is the length itself (short form); \<open>0x80 + k\<close> announces \<open>k\<close> bytes of
      length (long form); \<open>0x80\<close> (indefinite) and \<open>0xFF\<close> (reserved) are refused\<close>
  "ber_length bs =
     (case bs of
        [] \<Rightarrow> None
      | l # r \<Rightarrow>
          if unat l < 0x80 then Some (unat l, r)
          else if unat l = 0x80 \<or> unat l = 0xFF then None
          else (let k = unat l - 0x80
                in if k \<le> length r then Some (be_nat (take k r), drop k r) else None))"

definition ber_tlv :: "byte list \<Rightarrow> (byte \<times> byte list \<times> byte list) option" where
  \<comment> \<open>tag, content and remaining bytes of the first element\<close>
  "ber_tlv bs =
     (case bs of
        [] \<Rightarrow> None
      | t # r \<Rightarrow>
          (case ber_length r of
             None \<Rightarrow> None
           | Some (n, r') \<Rightarrow> if n \<le> length r' then Some (t, take n r', drop n r') else None))"

fun subids :: "nat \<Rightarrow> bool \<Rightarrow> byte list \<Rightarrow> nat list option" where
  \<comment> \<open>base-128 subidentifiers; the high bit marks a byte that is not the last of its
      subidentifier\<close>
  "subids acc mid [] = (if mid then None else Some [])"
| "subids acc mid (b # bs) =
     (if 128 \<le> unat b then subids (128 * acc + (unat b - 128)) True bs
      else (case subids 0 False bs of
              None \<Rightarrow> None
            | Some r \<Rightarrow> Some ((128 * acc + unat b) # r)))"

definition ber_oid :: "byte list \<Rightarrow> nat list option" where
  \<comment> \<open>the arcs of an OBJECT IDENTIFIER; the first subidentifier packs the first two\<close>
  "ber_oid content =
     (case subids 0 False content of
        Some (f # r) \<Rightarrow>
          Some ((if f < 40 then 0 else if f < 80 then 1 else 2)
                # (if f < 40 then f else if f < 80 then f - 40 else f - 80) # r)
      | _ \<Rightarrow> None)"

record get_request =
  request_id :: "byte list"
  error_status :: "byte list"
  error_index :: "byte list"
  binding_oid :: "nat list"
  binding_tag :: byte
  binding_content :: "byte list"

definition decode_get_request :: "byte list \<Rightarrow> get_request option" where
  \<comment> \<open>a GetRequest PDU (tag \<open>0xA0\<close>) with three INTEGER fields and a list of exactly one
      variable binding\<close>
  "decode_get_request bs =
     (case ber_tlv bs of
        Some (t, c, r) \<Rightarrow>
          if t = 0xA0 \<and> r = [] then
            (case ber_tlv c of
               Some (t1, rid, c1) \<Rightarrow>
                 (case ber_tlv c1 of
                    Some (t2, es, c2) \<Rightarrow>
                      (case ber_tlv c2 of
                         Some (t3, ei, c3) \<Rightarrow>
                           (case ber_tlv c3 of
                              Some (t4, vbl, r4) \<Rightarrow>
                                (case ber_tlv vbl of
                                   Some (t5, vb, r5) \<Rightarrow>
                                     (case ber_tlv vb of
                                        Some (t6, oc, r6) \<Rightarrow>
                                          (case ber_tlv r6 of
                                             Some (t7, vc, r7) \<Rightarrow>
                                               (case ber_oid oc of
                                                  Some arcs \<Rightarrow>
                                                    if t1 = 0x02 \<and> t2 = 0x02 \<and> t3 = 0x02 \<and> t4 = 0x30
                                                       \<and> r4 = [] \<and> t5 = 0x30 \<and> r5 = [] \<and> t6 = 0x06
                                                       \<and> r7 = []
                                                    then Some \<lparr>request_id = rid, error_status = es,
                                                                error_index = ei, binding_oid = arcs,
                                                                binding_tag = t7, binding_content = vc\<rparr>
                                                    else None
                                                | None \<Rightarrow> None)
                                           | None \<Rightarrow> None)
                                      | None \<Rightarrow> None)
                                 | None \<Rightarrow> None)
                            | None \<Rightarrow> None)
                       | None \<Rightarrow> None)
                  | None \<Rightarrow> None)
             | None \<Rightarrow> None)
          else None
      | None \<Rightarrow> None)"

definition pdu_tail :: "byte list" where
  \<comment> \<open>the bytes of \<open>rest\<close> (line 73)\<close>
  "pdu_tail =
     [0xA0, 0x1C, 0x02, 0x04, 0x0E, 0xB3, 0x76, 0xF4, 0x02, 0x01, 0x00, 0x02, 0x01, 0x00,
      0x30, 0x0E, 0x30, 0x0C, 0x06, 0x08, 0x2B, 0x06, 0x01, 0x02, 0x01, 0x01, 0x05, 0x00,
      0x05, 0x00]"

section \<open>Concrete environments\<close>

definition silent_net :: udp_env where
  \<comment> \<open>the socket opens and no reply arrives\<close>
  "silent_net = \<lparr>socket_setup = (\<lambda>_. None), exchange = (\<lambda>_ _ _. Timeout)\<rparr>"

definition reply_net :: "byte list \<Rightarrow> udp_env" where
  \<comment> \<open>the socket opens and the reply is the bytes given\<close>
  "reply_net data = \<lparr>socket_setup = (\<lambda>_. None), exchange = (\<lambda>_ _ _. Received data)\<rparr>"

definition two_answers :: snmp_env where
  \<comment> \<open>an agent that answers sysDescr and sysName, reports an error status for
      sysObjectID, and for which the other requests raise\<close>
  "two_answers =
     \<lparr>pysnmp_installed = True,
      get_cmd = (\<lambda>target uport community timeout oid.
        if oid = S ''1.3.6.1.2.1.1.1.0'' then GetReply False False [Pretty (S ''Linux'')]
        else if oid = S ''1.3.6.1.2.1.1.2.0'' then GetReply False True [Pretty (S ''x'')]
        else if oid = S ''1.3.6.1.2.1.1.5.0'' then GetReply False False [Pretty (S ''gw'')]
        else GetRaises)\<rparr>"

definition open_directory :: ldap_env where
  \<comment> \<open>a server that accepts the connection, would accept an anonymous bind and has one
      naming context; \<open>conn.open()\<close> returns \<open>None\<close>, as ldap3's does\<close>
  "open_directory =
     \<lparr>clock = (\<lambda>_. 0),
      create_connection = Returns (),
      new_server = Returns (),
      new_connection = Returns (),
      conn_open = Returns False,
      conn_start_tls = Returns True,
      conn_last_error = [],
      conn_bind = Returns True,
      bind_result = [],
      server_info_present = Returns False,
      info_to_dict = Returns PNone,
      schema_str = Returns [],
      server_str = Returns [],
      root_search = Returns True,
      conn_entries =
        Returns [\<lparr>entry_attributes_as_dict =
                    Returns [(S ''namingContexts'', [PStr (S ''dc=example,dc=com'')])],
                  entry_str = Returns []\<rparr>],
      search_result = PNone,
      sample_search = (\<lambda>_. Returns True)\<rparr>"


section \<open>The packet of the raw probe\<close>

lemma fromhex_suffix: "fromhex suffix_hex = Inr pdu_tail"
  by (simp add: suffix_hex_def pdu_tail_def hexval_def)

lemma length_pdu_tail: "length pdu_tail = 30"
  by (simp add: pdu_tail_def)

lemma unat_byte: "n < 256 \<Longrightarrow> unat (of_nat n :: byte) = n"
  by (simp add: unat_of_nat)

lemma build_payload_small:
  assumes "encode_utf8 community = Inr cb" and "length cb \<le> 220"
  shows "build_payload community =
     Inr ([0x30, of_nat (length cb + 35), 0x02, 0x01, 0x00, 0x04, of_nat (length cb)]
          @ cb @ pdu_tail)"
  using assms
  by (simp add: build_payload_def fromhex_suffix bytes_of_int_def length_pdu_tail Let_def
      add.commute)

lemma build_payload_big:
  assumes "encode_utf8 community = Inr cb" and "221 \<le> length cb"
  shows "build_payload community = Inl (ValueError (S ''bytes must be in range(0, 256)''))"
  using assms
  by (simp add: build_payload_def fromhex_suffix bytes_of_int_def length_pdu_tail Let_def)

lemma encode_utf8_ascii:
  "list_all (\<lambda>c. c < 128) cs \<Longrightarrow> encode_utf8 cs = Inr (map of_nat cs)"
  by (induction cs) (simp_all add: utf8_char_def)

lemma encode_public: "encode_utf8 (S ''public'') = Inr [0x70, 0x75, 0x62, 0x6C, 0x69, 0x63]"
  by (simp add: S_def utf8_char_def)

text \<open>
  Claim C1, as the code has it. For a community whose UTF-8 encoding \<open>cb\<close> has \<open>N < 128\<close>
  bytes (for an ASCII community, \<open>N\<close> is its number of characters), the packet is built,
  its outer length byte (index 1) is \<open>3 + 2 + N + 30\<close> and its community length byte
  (index 6) is \<open>N\<close>. The fixed tail has 30 bytes: the two bytes \<open>A0 1C\<close> and the 28
  bytes of content they announce.
\<close>

theorem outer_and_community_length_bytes:
  assumes "encode_utf8 community = Inr cb" and "length cb < 128"
  shows "\<exists>p. build_payload community = Inr p
             \<and> unat (p ! 1) = 3 + 2 + length cb + 30
             \<and> unat (p ! 6) = length cb"
proof -
  from assms have "build_payload community =
     Inr ([0x30, of_nat (length cb + 35), 0x02, 0x01, 0x00, 0x04, of_nat (length cb)]
          @ cb @ pdu_tail)"
    by (simp add: build_payload_small)
  moreover from assms(2) have "unat (of_nat (length cb + 35) :: byte) = length cb + 35"
    by (intro unat_byte) simp
  moreover from assms(2) have "unat (of_nat (length cb) :: byte) = length cb"
    by (intro unat_byte) simp
  ultimately show ?thesis by simp
qed

theorem outer_and_community_length_bytes_witness:
  "encode_utf8 (S ''public'') = Inr [0x70, 0x75, 0x62, 0x6C, 0x69, 0x63]
   \<and> length [0x70, 0x75, 0x62, 0x6C, 0x69, 0x63 :: byte] < 128
   \<and> (\<exists>p. build_payload (S ''public'') = Inr p
          \<and> unat (p ! 1) = 3 + 2 + length [0x70, 0x75, 0x62, 0x6C, 0x69, 0x63 :: byte] + 30
          \<and> unat (p ! 6) = length [0x70, 0x75, 0x62, 0x6C, 0x69, 0x63 :: byte])"
  using outer_and_community_length_bytes [of "S ''public''" "[0x70, 0x75, 0x62, 0x6C, 0x69, 0x63]"]
  by (simp add: encode_public)

text \<open>
  Claim C1 as stated fails at the community \<open>public\<close> (\<open>N = 6\<close>): the outer length byte of
  the packet is \<open>0x29 = 41\<close>, and \<open>3 + 2 + 6 + 28 = 39\<close>.
\<close>

theorem outer_length_28_counterexample:
  "length (S ''public'') = 6
   \<and> build_payload (S ''public'') =
       Inr [0x30, 0x29, 0x02, 0x01, 0x00, 0x04, 0x06, 0x70, 0x75, 0x62, 0x6C, 0x69, 0x63,
            0xA0, 0x1C, 0x02, 0x04, 0x0E, 0xB3, 0x76, 0xF4, 0x02, 0x01, 0x00, 0x02, 0x01, 0x00,
            0x30, 0x0E, 0x30, 0x0C, 0x06, 0x08, 0x2B, 0x06, 0x01, 0x02, 0x01, 0x01, 0x05, 0x00,
            0x05, 0x00]
   \<and> unat (0x29 :: byte) \<noteq> 3 + 2 + length (S ''public'') + 28"
proof -
  have "build_payload (S ''public'') =
       Inr [0x30, 0x29, 0x02, 0x01, 0x00, 0x04, 0x06, 0x70, 0x75, 0x62, 0x6C, 0x69, 0x63,
            0xA0, 0x1C, 0x02, 0x04, 0x0E, 0xB3, 0x76, 0xF4, 0x02, 0x01, 0x00, 0x02, 0x01, 0x00,
            0x30, 0x0E, 0x30, 0x0C, 0x06, 0x08, 0x2B, 0x06, 0x01, 0x02, 0x01, 0x01, 0x05, 0x00,
            0x05, 0x00]"
    by (simp add: build_payload_small [OF encode_public] pdu_tail_def)
  moreover have "length (S ''public'') = 6"
    by (simp add: S_def)
  ultimately show ?thesis by simp
qed

lemma raw_sent:
  assumes "build_payload community = Inr p" and "socket_setup env timeout = None"
  shows "sent (raw_udp_check env target uport community timeout) = Some p"
  using assms by (simp add: raw_udp_check_def split: udp_exchange.splits)

lemma raw_not_sent:
  assumes "build_payload community = Inl e"
  shows "raw_udp_check env target uport community timeout = \<lparr>sent = None, outcome = Inl e\<rparr>"
  using assms by (simp add: raw_udp_check_def)

text \<open>
  Claim C5. For a community whose UTF-8 encoding \<open>cb\<close> has fewer than 128 bytes (for an
  ASCII community, fewer than 128 characters), when the socket is set up, the bytes handed
  to \<open>sendto\<close> are \<open>30 LL 02 01 00 04 CL\<close>, the community bytes and the fixed tail with
  the request-id \<open>0E B3 76 F4\<close>, where \<open>CL\<close> is the number of community bytes and
  \<open>LL\<close> the number of bytes that follow it.
\<close>

theorem sent_wire_layout:
  assumes "encode_utf8 community = Inr cb" and "length cb < 128"
    and "socket_setup env timeout = None"
  shows "\<exists>LL CL. sent (raw_udp_check env target uport community timeout) =
            Some ([0x30, LL, 0x02, 0x01, 0x00, 0x04, CL] @ cb @
                  [0xA0, 0x1C, 0x02, 0x04, 0x0E, 0xB3, 0x76, 0xF4, 0x02, 0x01, 0x00,
                   0x02, 0x01, 0x00, 0x30, 0x0E, 0x30, 0x0C, 0x06, 0x08, 0x2B, 0x06,
                   0x01, 0x02, 0x01, 0x01, 0x05, 0x00, 0x05, 0x00])
          \<and> unat CL = length cb
          \<and> unat LL = length ([0x02, 0x01, 0x00, 0x04, CL] @ cb @
                  [0xA0, 0x1C, 0x02, 0x04, 0x0E, 0xB3, 0x76, 0xF4, 0x02, 0x01, 0x00,
                   0x02, 0x01, 0x00, 0x30, 0x0E, 0x30, 0x0C, 0x06, 0x08, 0x2B, 0x06,
                   0x01, 0x02, 0x01, 0x01, 0x05, 0x00, 0x05, 0x00 :: byte])"
proof -
  let ?LL = "of_nat (length cb + 35) :: byte" and ?CL = "of_nat (length cb) :: byte"
  from assms(1,2) have "build_payload community =
     Inr ([0x30, ?LL, 0x02, 0x01, 0x00, 0x04, ?CL] @ cb @ pdu_tail)"
    by (simp add: build_payload_small)
  with assms(3) have "sent (raw_udp_check env target uport community timeout) =
     Some ([0x30, ?LL, 0x02, 0x01, 0x00, 0x04, ?CL] @ cb @ pdu_tail)"
    by (simp add: raw_sent)
  moreover from assms(2) have "unat ?LL = length cb + 35"
    by (intro unat_byte) simp
  moreover from assms(2) have "unat ?CL = length cb"
    by (intro unat_byte) simp
  ultimately show ?thesis
    by (intro exI [of _ ?LL] exI [of _ ?CL]) (simp add: pdu_tail_def)
qed

theorem sent_wire_layout_witness:
  "encode_utf8 (S ''public'') = Inr [0x70, 0x75, 0x62, 0x6C, 0x69, 0x63]
   \<and> length [0x70, 0x75, 0x62, 0x6C, 0x69, 0x63 :: byte] < 128
   \<and> socket_setup silent_net 2 = None
   \<and> (\<exists>LL CL. sent (raw_udp_check silent_net (S ''10.0.0.1'') 161 (S ''public'') 2) =
            Some ([0x30, LL, 0x02, 0x01, 0x00, 0x04, CL] @ [0x70, 0x75, 0x62, 0x6C, 0x69, 0x63] @
                  [0xA0, 0x1C, 0x02, 0x04, 0x0E, 0xB3, 0x76, 0xF4, 0x02, 0x01, 0x00,
                   0x02, 0x01, 0x00, 0x30, 0x0E, 0x30, 0x0C, 0x06, 0x08, 0x2B, 0x06,
                   0x01, 0x02, 0x01, 0x01, 0x05, 0x00, 0x05, 0x00])
          \<and> unat CL = length [0x70, 0x75, 0x62, 0x6C, 0x69, 0x63 :: byte]
          \<and> unat LL = length ([0x02, 0x01, 0x00, 0x04, CL] @ [0x70, 0x75, 0x62, 0x6C, 0x69, 0x63] @
                  [0xA0, 0x1C, 0x02, 0x04, 0x0E, 0xB3, 0x76, 0xF4, 0x02, 0x01, 0x00,
                   0x02, 0x01, 0x00, 0x30, 0x0E, 0x30, 0x0C, 0x06, 0x08, 0x2B, 0x06,
                   0x01, 0x02, 0x01, 0x01, 0x05, 0x00, 0x05, 0x00 :: byte]))"
  using sent_wire_layout [of "S ''public''" "[0x70, 0x75, 0x62, 0x6C, 0x69, 0x63]" silent_net 2
      "S ''10.0.0.1''" 161]
  by (simp add: encode_public silent_net_def)

lemma decode_tail:
  "decode_get_request pdu_tail =
     Some \<lparr>request_id = [0x0E, 0xB3, 0x76, 0xF4], error_status = [0], error_index = [0],
           binding_oid = [1, 3, 6, 1, 2, 1, 1, 5, 0], binding_tag = 5, binding_content = []\<rparr>"
  by (simp add: decode_get_request_def pdu_tail_def ber_tlv_def ber_length_def ber_oid_def)

lemma build_payload_tail:
  assumes "build_payload community = Inr p"
  shows "drop (length p - 30) p = pdu_tail"
proof -
  obtain cb where cb: "encode_utf8 community = Inr cb"
    using assms by (cases "encode_utf8 community") (simp_all add: build_payload_def)
  have "length cb \<le> 220"
  proof (rule ccontr)
    assume "\<not> length cb \<le> 220"
    then have "221 \<le> length cb" by arith
    with cb have "build_payload community = Inl (ValueError (S ''bytes must be in range(0, 256)''))"
      by (rule build_payload_big)
    with assms show False by simp
  qed
  define pre where
    "pre = [0x30, of_nat (length cb + 35), 0x02, 0x01, 0x00, 0x04, of_nat (length cb)] @ cb"
  from cb assms \<open>length cb \<le> 220\<close> have p: "p = pre @ pdu_tail"
    by (simp add: build_payload_small pre_def)
  then have "length p - 30 = length pre"
    by (simp add: length_pdu_tail)
  with p show ?thesis by simp
qed

text \<open>
  Claim C4, as the code has it. For every community for which a packet is built, the last
  30 bytes of the packet are the fixed tail, and the tail reads as a GetRequest with
  request-id \<open>0E B3 76 F4\<close>, error status and error index 0, and one variable binding of
  the OID \<open>1.3.6.1.2.1.1.5.0\<close> (sysName) to NULL (tag \<open>05\<close>, no content).
\<close>

theorem tail_requests_sysName:
  assumes "build_payload community = Inr p"
  shows "decode_get_request (drop (length p - 30) p) =
     Some \<lparr>request_id = [0x0E, 0xB3, 0x76, 0xF4], error_status = [0], error_index = [0],
           binding_oid = [1, 3, 6, 1, 2, 1, 1, 5, 0], binding_tag = 0x05, binding_content = []\<rparr>"
  using assms by (simp add: build_payload_tail decode_tail)


theorem tail_requests_sysName_witness:
  "build_payload (S ''public'') =
       Inr [0x30, 0x29, 0x02, 0x01, 0x00, 0x04, 0x06, 0x70, 0x75, 0x62, 0x6C, 0x69, 0x63,
            0xA0, 0x1C, 0x02, 0x04, 0x0E, 0xB3, 0x76, 0xF4, 0x02, 0x01, 0x00, 0x02, 0x01, 0x00,
            0x30, 0x0E, 0x30, 0x0C, 0x06, 0x08, 0x2B, 0x06, 0x01, 0x02, 0x01, 0x01, 0x05, 0x00,
            0x05, 0x00]
   \<and> decode_get_request
         [0xA0, 0x1C, 0x02, 0x04, 0x0E, 0xB3, 0x76, 0xF4, 0x02, 0x01, 0x00, 0x02, 0x01, 0x00,
          0x30, 0x0E, 0x30, 0x0C, 0x06, 0x08, 0x2B, 0x06, 0x01, 0x02, 0x01, 0x01, 0x05, 0x00,
          0x05, 0x00] =
       Some \<lparr>request_id = [0x0E, 0xB3, 0x76, 0xF4], error_status = [0], error_index = [0],
             binding_oid = [1, 3, 6, 1, 2, 1, 1, 5, 0], binding_tag = 0x05,
             binding_content = []\<rparr>"
proof -
  have b: "build_payload (S ''public'') =
       Inr [0x30, 0x29, 0x02, 0x01, 0x00, 0x04, 0x06, 0x70, 0x75, 0x62, 0x6C, 0x69, 0x63,
            0xA0, 0x1C, 0x02, 0x04, 0x0E, 0xB3, 0x76, 0xF4, 0x02, 0x01, 0x00, 0x02, 0x01, 0x00,
            0x30, 0x0E, 0x30, 0x0C, 0x06, 0x08, 0x2B, 0x06, 0x01, 0x02, 0x01, 0x01, 0x05, 0x00,
            0x05, 0x00]"
    by (simp add: build_payload_small [OF encode_public] pdu_tail_def)
  show ?thesis
    using tail_requests_sysName [OF b] b by simp
qed

text \<open>
  Claim C4 as stated fails: the OID in the variable binding of the tail of line 70 is
  \<open>1.3.6.1.2.1.1.5.0\<close>, which is not sysDescr, \<open>1.3.6.1.2.1.1.1.0\<close>.
\<close>

theorem tail_not_sysDescr_counterexample:
  "fromhex suffix_hex = Inr pdu_tail
   \<and> map_option binding_oid (decode_get_request pdu_tail) = Some [1, 3, 6, 1, 2, 1, 1, 5, 0]
   \<and> map_option binding_oid (decode_get_request pdu_tail) \<noteq> Some [1, 3, 6, 1, 2, 1, 1, 1, 0]"
  by (simp add: fromhex_suffix decode_tail)

section \<open>Communities of 128 bytes and more\<close>

lemma ber_length_long:
  assumes "ber_length (l # r) = Some (n, r')" and "128 \<le> unat l"
  shows "length r' < length r"
  using assms by (auto simp: ber_length_def Let_def split: if_splits)

lemma ber_tlv_long:
  assumes "ber_tlv (t # l # r) = Some (t', c, rest)" and "128 \<le> unat l"
  shows "length c + length rest < length r"
proof -
  from assms(1) obtain n r' where lr: "ber_length (l # r) = Some (n, r')"
    and c: "c = take n r'" and rest: "rest = drop n r'"
    by (auto simp: ber_tlv_def split: option.splits if_splits)
  from lr assms(2) have "length r' < length r" by (rule ber_length_long)
  moreover from c rest have "length c + length rest = length r'" by simp
  ultimately show ?thesis by simp
qed

lemma encode_replicate_a: "encode_utf8 (replicate n 0x61) = Inr (replicate n 0x61)"
  by (induction n) (simp_all add: utf8_char_def)

lemma replicate_129: "replicate 129 x = x # replicate 128 x"
  by (simp add: numeral_eq_Suc)

lemma raw_run_of_payload:
  assumes "build_payload community = Inr pkt"
  shows "raw_udp_check env target uport community timeout =
           (case socket_setup env timeout of
              Some e \<Rightarrow> \<lparr>sent = None, outcome = Inl e\<rparr>
            | None \<Rightarrow>
                \<lparr>sent = Some pkt,
                 outcome = (case exchange env target uport pkt of
                              Timeout \<Rightarrow> Inr (False, S ''no response (timeout)'')
                            | SocketError m \<Rightarrow> Inr (False, S ''socket error: '' @ m)
                            | Received data \<Rightarrow> classify_reply community data)\<rparr>)"
  using assms by (simp add: raw_udp_check_def split: option.splits udp_exchange.splits)

text \<open>
  Claim C9, as the code has it. For a community whose UTF-8 encoding \<open>cb\<close> has
  \<open>N \<ge> 128\<close> bytes: when \<open>N \<le> 220\<close> the run is the run of any other community. If
  the socket is set up, the packet with the length bytes \<open>N + 35\<close> and \<open>N\<close> is handed to
  \<open>sendto\<close> and the outcome is the timeout, socket error or classification of the reply,
  with no word about the length; read as BER, neither the outer element is the rest of
  the packet nor the community element the community followed by the tail. When
  \<open>N \<ge> 221\<close>, \<open>bytes([total_len])\<close> or \<open>bytes([comm_len])\<close> raises ValueError, which leaves
  the function before a socket exists, and nothing is sent.
\<close>

theorem long_community_sent_or_refused:
  assumes "encode_utf8 community = Inr cb" and "128 \<le> length cb"
  shows "if length cb \<le> 220 then
           raw_udp_check env target uport community timeout =
             (case socket_setup env timeout of
                Some e \<Rightarrow> \<lparr>sent = None, outcome = Inl e\<rparr>
              | None \<Rightarrow>
                  \<lparr>sent = Some ([0x30, of_nat (length cb + 35), 0x02, 0x01, 0x00, 0x04,
                                 of_nat (length cb)] @ cb @ pdu_tail),
                   outcome =
                     (case exchange env target uport
                             ([0x30, of_nat (length cb + 35), 0x02, 0x01, 0x00, 0x04,
                               of_nat (length cb)] @ cb @ pdu_tail) of
                        Timeout \<Rightarrow> Inr (False, S ''no response (timeout)'')
                      | SocketError m \<Rightarrow> Inr (False, S ''socket error: '' @ m)
                      | Received data \<Rightarrow> classify_reply community data)\<rparr>)
           \<and> ber_tlv ([0x30, of_nat (length cb + 35)]
                       @ [0x02, 0x01, 0x00, 0x04, of_nat (length cb)] @ cb @ pdu_tail)
               \<noteq> Some (0x30, [0x02, 0x01, 0x00, 0x04, of_nat (length cb)] @ cb @ pdu_tail, [])
           \<and> ber_tlv ([0x04, of_nat (length cb)] @ cb @ pdu_tail) \<noteq> Some (0x04, cb, pdu_tail)
         else
           raw_udp_check env target uport community timeout =
             \<lparr>sent = None, outcome = Inl (ValueError (S ''bytes must be in range(0, 256)''))\<rparr>"
proof (cases "length cb \<le> 220")
  case True
  let ?pkt = "[0x30, of_nat (length cb + 35), 0x02, 0x01, 0x00, 0x04, of_nat (length cb)]
                  @ cb @ pdu_tail"
  from assms(1) True have b: "build_payload community = Inr ?pkt"
    by (rule build_payload_small)
  note run = raw_run_of_payload [OF b, of env target uport timeout]
  from True assms(2) have u: "128 \<le> unat (of_nat (length cb) :: byte)"
    by (simp add: unat_byte)
  from True have u2: "128 \<le> unat (of_nat (length cb + 35) :: byte)"
    using unat_byte [of "length cb + 35"] assms(2) by simp
  have inner: "ber_tlv ([0x04, of_nat (length cb)] @ cb @ pdu_tail) \<noteq> Some (0x04, cb, pdu_tail)"
  proof
    assume "ber_tlv ([0x04, of_nat (length cb)] @ cb @ pdu_tail) = Some (0x04, cb, pdu_tail)"
    then have "ber_tlv (0x04 # of_nat (length cb) # (cb @ pdu_tail)) = Some (0x04, cb, pdu_tail)"
      by simp
    from ber_tlv_long [OF this u] show False by simp
  qed
  have outer: "ber_tlv ([0x30, of_nat (length cb + 35)]
                       @ [0x02, 0x01, 0x00, 0x04, of_nat (length cb)] @ cb @ pdu_tail)
               \<noteq> Some (0x30, [0x02, 0x01, 0x00, 0x04, of_nat (length cb)] @ cb @ pdu_tail, [])"
  proof
    assume "ber_tlv ([0x30, of_nat (length cb + 35)]
                       @ [0x02, 0x01, 0x00, 0x04, of_nat (length cb)] @ cb @ pdu_tail)
               = Some (0x30, [0x02, 0x01, 0x00, 0x04, of_nat (length cb)] @ cb @ pdu_tail, [])"
    then have "ber_tlv (0x30 # of_nat (length cb + 35)
                        # ([0x02, 0x01, 0x00, 0x04, of_nat (length cb)] @ cb @ pdu_tail))
               = Some (0x30, [0x02, 0x01, 0x00, 0x04, of_nat (length cb)] @ cb @ pdu_tail, [])"
      by simp
    from ber_tlv_long [OF this u2] show False by simp
  qed
  from run inner outer True show ?thesis by simp
next
  case False
  then have "221 \<le> length cb" by arith
  with assms(1) have "build_payload community = Inl (ValueError (S ''bytes must be in range(0, 256)''))"
    by (rule build_payload_big)
  with False show ?thesis by (simp add: raw_not_sent)
qed

theorem long_community_sent_or_refused_witness:
  "encode_utf8 (replicate 129 0x61) = Inr (replicate 129 0x61)
   \<and> 128 \<le> length (replicate 129 (0x61 :: byte))
   \<and> raw_udp_check silent_net (S ''10.0.0.1'') 161 (replicate 129 0x61) 2 =
       \<lparr>sent = Some ([0x30, 0xA4, 0x02, 0x01, 0x00, 0x04, 0x81] @ replicate 129 0x61 @ pdu_tail),
        outcome = Inr (False, S ''no response (timeout)'')\<rparr>
   \<and> ber_tlv ([0x30, 0xA4] @ [0x02, 0x01, 0x00, 0x04, 0x81] @ replicate 129 0x61 @ pdu_tail)
       \<noteq> Some (0x30, [0x02, 0x01, 0x00, 0x04, 0x81] @ replicate 129 0x61 @ pdu_tail, [])
   \<and> ber_tlv ([0x04, 0x81] @ replicate 129 0x61 @ pdu_tail)
       \<noteq> Some (0x04, replicate 129 0x61, pdu_tail)"
  using long_community_sent_or_refused [of "replicate 129 0x61" "replicate 129 0x61" silent_net
      "S ''10.0.0.1''" 161 2]
  by (simp add: encode_replicate_a silent_net_def)

text \<open>
  Claim C9 as stated fails at the community of 129 letters \<open>a\<close>: the probe sends the
  packet and returns the ordinary timeout outcome, no exception and no message about the
  length; the community length byte is \<open>0x81\<close>, which BER reads as a long form of one
  byte, giving the length \<open>0x61 = 97\<close> for a community of 129 bytes.
\<close>

theorem long_community_sent_counterexample:
  "length (replicate 129 (0x61 :: nat)) = 129
   \<and> raw_udp_check silent_net (S ''10.0.0.1'') 161 (replicate 129 0x61) 2 =
       \<lparr>sent = Some ([0x30, 0xA4, 0x02, 0x01, 0x00, 0x04, 0x81] @ replicate 129 0x61 @ pdu_tail),
        outcome = Inr (False, S ''no response (timeout)'')\<rparr>
   \<and> ber_length ([0x81] @ replicate 129 0x61 @ pdu_tail) =
       Some (0x61, replicate 128 0x61 @ pdu_tail)"
proof -
  have "build_payload (replicate 129 0x61) =
      Inr ([0x30, 0xA4, 0x02, 0x01, 0x00, 0x04, 0x81] @ replicate 129 0x61 @ pdu_tail)"
    using build_payload_small [OF encode_replicate_a, of 129] by simp
  then have "raw_udp_check silent_net (S ''10.0.0.1'') 161 (replicate 129 0x61) 2 =
       \<lparr>sent = Some ([0x30, 0xA4, 0x02, 0x01, 0x00, 0x04, 0x81] @ replicate 129 0x61 @ pdu_tail),
        outcome = Inr (False, S ''no response (timeout)'')\<rparr>"
    by (simp add: raw_udp_check_def silent_net_def)
  moreover have "ber_length ([0x81] @ replicate 129 0x61 @ pdu_tail) =
       Some (0x61, replicate 128 0x61 @ pdu_tail)"
    by (simp add: ber_length_def be_nat_def replicate_129)
  ultimately show ?thesis by simp
qed

section \<open>The classification of the reply\<close>

lemma str_join_int:
  "list_ex (\<lambda>it. case it of IntItem _ \<Rightarrow> True | StrItem _ \<Rightarrow> False) items \<Longrightarrow>
   \<exists>m. str_join i items = Inl (TypeError m)"
proof (induction items arbitrary: i)
  case Nil
  then show ?case by simp
next
  case (Cons it items)
  show ?case
  proof (cases it)
    case (IntItem n)
    then show ?thesis by simp
  next
    case (StrItem s)
    with Cons.prems have "list_ex (\<lambda>it. case it of IntItem _ \<Rightarrow> True | StrItem _ \<Rightarrow> False) items"
      by simp
    from Cons.IH [OF this, of "Suc i"] obtain m where "str_join (Suc i) items = Inl (TypeError m)" ..
    with StrItem show ?thesis by simp
  qed
qed

lemma classify_printable_raises:
  assumes "list_ex printable_byte data"
  shows "\<exists>m. classify_reply community data = Inl (TypeError m)"
proof -
  from assms have "list_ex (\<lambda>it. case it of IntItem _ \<Rightarrow> True | StrItem _ \<Rightarrow> False) (printable_items data)"
    by (induction data) (auto simp: printable_items_def printable_byte_def)
  from str_join_int [OF this, of 0] obtain m where "str_join 0 (printable_items data) = Inl (TypeError m)" ..
  then show ?thesis by (simp add: classify_reply_def)
qed

lemma str_join_dots:
  "\<not> list_ex printable_byte data \<Longrightarrow> str_join i (printable_items data) = Inr (replicate (length data) 0x2E)"
  by (induction data arbitrary: i) (auto simp: printable_items_def printable_byte_def S_def)

lemma runs_from_dots:
  "runs_from cur (replicate n 0x2E) = (if 4 \<le> length cur + n then [cur @ replicate n 0x2E] else [])"
  by (induction n arbitrary: cur) (auto simp: in_class_def replicate_append_same)

lemma classify_unprintable:
  assumes "\<not> list_ex printable_byte data" and "encode_utf8 community = Inr needle"
  shows "classify_reply community data =
     (if seq_contains needle data then
        Inr (True, S ''response contains community '' @ [0x27] @ community @ [0x27]
                   @ S ''. Printable snippet: '' @ replicate (length data) 0x2E)
      else if 4 \<le> length data then
        Inr (True, S ''response received (no community string visible): ''
                   @ replicate (length data) 0x2E)
      else Inr (False, S ''received '' @ dec (length data) @ S '' bytes but no printable content''))"
  using assms
  by (auto simp: classify_reply_def str_join_dots findall_runs_def runs_from_dots Let_def)

lemma timeout_outcome:
  assumes "build_payload community = Inr p" and "socket_setup env timeout = None"
    and "exchange env target uport p = Timeout"
  shows "outcome (raw_udp_check env target uport community timeout) =
           Inr (False, S ''no response (timeout)'')"
  using assms by (simp add: raw_udp_check_def)

text \<open>
  Claim C6 against the code. The community is \<open>public\<close> and the reply is the eight bytes
  \<open>04 06 70 75 62 6C 69 63\<close>, which contain the community. The generator of line 96 yields
  the integer \<open>0x70\<close> for the third byte, \<open>''.join\<close> raises TypeError, and the exception
  leaves \<open>raw_udp_check\<close>: no classification is returned. By \<open>classify_printable_raises\<close>
  the same holds for every reply with a byte in \<open>32..126\<close>; by \<open>classify_unprintable\<close>
  the three classes are returned for the replies without one.
\<close>

theorem reply_with_community_raises:
  "seq_contains [0x70, 0x75, 0x62, 0x6C, 0x69, 0x63] [0x04, 0x06, 0x70, 0x75, 0x62, 0x6C, 0x69, 0x63 :: byte]
   \<and> encode_utf8 (S ''public'') = Inr [0x70, 0x75, 0x62, 0x6C, 0x69, 0x63]
   \<and> outcome (raw_udp_check (reply_net [0x04, 0x06, 0x70, 0x75, 0x62, 0x6C, 0x69, 0x63])
                (S ''10.0.0.1'') 161 (S ''public'') 2) =
       Inl (TypeError (S ''sequence item 2: expected str instance, int found''))"
proof -
  have "build_payload (S ''public'') =
     Inr ([0x30, of_nat (length [0x70, 0x75, 0x62, 0x6C, 0x69, 0x63 :: byte] + 35), 0x02, 0x01, 0x00, 0x04,
           of_nat (length [0x70, 0x75, 0x62, 0x6C, 0x69, 0x63 :: byte])]
          @ [0x70, 0x75, 0x62, 0x6C, 0x69, 0x63] @ pdu_tail)"
    by (rule build_payload_small [OF encode_public]) simp
  moreover have "classify_reply (S ''public'') [0x04, 0x06, 0x70, 0x75, 0x62, 0x6C, 0x69, 0x63] =
       Inl (TypeError (S ''sequence item 2: expected str instance, int found''))"
    by (simp add: classify_reply_def printable_items_def S_def dec_def)
  ultimately show ?thesis
    by (simp add: raw_udp_check_def reply_net_def encode_public)
qed
section \<open>The LDAP probe\<close>

lemma dict_get_set: "dict_get (dict_set k v d) k' = (if k' = k then Some v else dict_get d k')"
  by (induction d) auto

lemma dict_has_set: "dict_has k' (dict_set k v d) = (k' = k \<or> dict_has k' d)"
  by (simp add: dict_has_def dict_get_set)

lemma dict_has_Nil: "\<not> dict_has k []"
  by (simp add: dict_has_def)

lemma dict_has_Cons: "dict_has k (p # d) = (fst p = k \<or> dict_has k d)"
  by (simp add: dict_has_def)

lemma starts_with_append: "starts_with xs (xs @ ys)"
  by (induction xs) auto

lemma seq_contains_prefix: "seq_contains xs (xs @ ys)"
  using starts_with_append [of xs ys] by (cases "xs @ ys") auto

text \<open>
  Claim C10. The model of \<open>try_anonymous_bind\<close> is total, so the function returns on every
  path (TCP failure, failure of \<open>Server\<close>, exception in the LDAP operations, refused
  bind, successful bind), and the \<open>timings\<close> of the result it returns always have the
  key \<open>total_s\<close>.
\<close>

theorem total_s_always:
  "dict_has (S ''total_s'') (timings (res (try_anonymous_bind env h p ul st tmo)))"
  by (simp add: try_anonymous_bind_def Let_def dict_has_set dict_has_Cons split: outcome.splits)

text \<open>
  Claim C7. When \<open>socket.create_connection\<close> raises an exception with message \<open>m\<close>
  (refused, timeout, DNS failure), the result has \<open>success = False\<close>, its \<open>error\<close> is
  \<open>TCP connection failed: m\<close>, which contains \<open>TCP connection failed\<close>, its \<open>timings\<close>
  have no \<open>bind_s\<close>, and the only call made is the TCP connect: no \<open>Server\<close>, no
  \<open>Connection\<close>, no open, no bind.
\<close>

theorem tcp_failure_stops:
  assumes "create_connection env = Raises m"
  shows "success (res (try_anonymous_bind env h p ul st tmo)) = False
       \<and> error (res (try_anonymous_bind env h p ul st tmo)) = Some (S ''TCP connection failed: '' @ m)
       \<and> seq_contains (S ''TCP connection failed'') (S ''TCP connection failed: '' @ m)
       \<and> \<not> dict_has (S ''bind_s'') (timings (res (try_anonymous_bind env h p ul st tmo)))
       \<and> trace (try_anonymous_bind env h p ul st tmo) = [EvTcpConnect]"
proof -
  have "S ''TCP connection failed: '' @ m = S ''TCP connection failed'' @ (S '': '' @ m)"
    by (simp add: S_def)
  then have "seq_contains (S ''TCP connection failed'') (S ''TCP connection failed: '' @ m)"
    by (simp only: seq_contains_prefix)
  moreover have "S ''bind_s'' \<noteq> S ''total_s''"
    by (simp add: S_def)
  ultimately show ?thesis
    using assms by (simp add: try_anonymous_bind_def dict_has_Cons dict_has_Nil)
qed

theorem tcp_failure_stops_witness:
  "create_connection (open_directory\<lparr>create_connection := Raises (S ''[Errno 111] Connection refused'')\<rparr>)
     = Raises (S ''[Errno 111] Connection refused'')
   \<and> res (try_anonymous_bind (open_directory\<lparr>create_connection := Raises (S ''[Errno 111] Connection refused'')\<rparr>)
        (S ''ldap.example.com'') 389 False False 5) =
      \<lparr>host = S ''ldap.example.com'', port = 389, use_ldaps = False, starttls = False,
       success = False,
       error = Some (S ''TCP connection failed: [Errno 111] Connection refused''),
       metadata = [], timings = [(S ''total_s'', Elapsed 0 0)]\<rparr>
   \<and> trace (try_anonymous_bind (open_directory\<lparr>create_connection := Raises (S ''[Errno 111] Connection refused'')\<rparr>)
        (S ''ldap.example.com'') 389 False False 5) = [EvTcpConnect]"
  using tcp_failure_stops [of "open_directory\<lparr>create_connection := Raises (S ''[Errno 111] Connection refused'')\<rparr>"
      "S ''[Errno 111] Connection refused''" "S ''ldap.example.com''" 389 False False 5]
  by (simp add: try_anonymous_bind_def open_directory_def S_def)




lemma no_bind_without_true_open:
  assumes "conn_open env \<noteq> Returns True"
  shows "EvBind \<notin> set (trace (try_anonymous_bind env h p ul st tmo))
       \<and> success (res (try_anonymous_bind env h p ul st tmo)) = False
       \<and> metadata (res (try_anonymous_bind env h p ul st tmo)) = []"
  using assms
  by (auto simp: try_anonymous_bind_def ldap_session_def Let_def split: outcome.splits bool.splits)








section \<open>The library probe\<close>

lemma dict_set_fresh: "k \<notin> fst ` set d \<Longrightarrow> dict_set k v d = d @ [(k, v)]"
  by (induction d) auto

lemma dict_set_last: "k \<notin> fst ` set d \<Longrightarrow> dict_set k v (d @ [(k, w)]) = d @ [(k, v)]"
  by (induction d) auto

lemma store_again:
  assumes "name \<notin> fst ` set rs"
  shows "store_varbinds name vbs \<lparr>results = rs @ [(name, w)], success_flag = True, requested = rq\<rparr> =
         \<lparr>results = rs @ [(name, case stored_value vbs of None \<Rightarrow> w | Some v \<Rightarrow> v)],
          success_flag = True, requested = rq\<rparr>"
  using assms
proof (induction vbs arbitrary: w)
  case Nil
  then show ?case by simp
next
  case (Cons vb vbs)
  then show ?case
    by (cases vb) (simp_all add: dict_set_last split: option.splits)
qed

lemma store_first:
  assumes "name \<notin> fst ` set rs"
  shows "store_varbinds name vbs \<lparr>results = rs, success_flag = b, requested = rq\<rparr> =
         (case stored_value vbs of
            None \<Rightarrow> \<lparr>results = rs, success_flag = b, requested = rq\<rparr>
          | Some v \<Rightarrow> \<lparr>results = rs @ [(name, v)], success_flag = True, requested = rq\<rparr>)"
proof (cases vbs)
  case Nil
  then show ?thesis by simp
next
  case (Cons vb vbs')
  show ?thesis
  proof (cases vb)
    case (Pretty v)
    with Cons assms show ?thesis
      by (simp add: dict_set_fresh store_again split: option.splits)
  next
    case PrettyRaises
    with Cons show ?thesis by simp
  qed
qed

lemma query_oid_step:
  assumes "fst item \<notin> fst ` set rs"
  shows "query_oid env target uport community timeout item
           \<lparr>results = rs, success_flag = b, requested = rq\<rparr> =
         \<lparr>results = rs @ answered env target uport community timeout [item],
          success_flag = (b \<or> answered env target uport community timeout [item] \<noteq> []),
          requested = rq @ [snd item]\<rparr>"
  using assms
  by (auto simp: query_oid_def answered_def value_of_reply_def Let_def
      store_first split: get_reply.splits option.splits)

lemma answered_Cons:
  "answered env target uport community timeout (item # items) =
     answered env target uport community timeout [item] @ answered env target uport community timeout items"
  by (simp add: answered_def split: option.splits)

lemma answered_names:
  "fst ` set (answered env target uport community timeout items) \<subseteq> fst ` set items"
  by (induction items) (auto simp: answered_def split: option.splits)

lemma disjoint_step:
  assumes "R \<inter> insert x I = {}" and "A \<subseteq> {x}" and "x \<notin> I"
  shows "(R \<union> A) \<inter> I = {}"
  using assms by blast

lemma enum_loop_answered:
  assumes "distinct (map fst items)" and "fst ` set rs \<inter> fst ` set items = {}"
  shows "enum_loop env target uport community timeout items
           \<lparr>results = rs, success_flag = b, requested = rq\<rparr> =
         \<lparr>results = rs @ answered env target uport community timeout items,
          success_flag = (b \<or> answered env target uport community timeout items \<noteq> []),
          requested = rq @ map snd items\<rparr>"
  using assms
proof (induction items arbitrary: rs b rq)
  case Nil
  then show ?case by (simp add: answered_def)
next
  case (Cons item items)
  let ?one = "answered env target uport community timeout [item]"
  from Cons.prems(2) have ins: "fst ` set rs \<inter> insert (fst item) (fst ` set items) = {}"
    by simp
  then have fresh: "fst item \<notin> fst ` set rs"
    by simp
  have sub: "fst ` set ?one \<subseteq> {fst item}"
    using answered_names [of env target uport community timeout "[item]"] by simp
  from Cons.prems(1) have d: "distinct (map fst items)" and ni: "fst item \<notin> fst ` set items"
    by simp_all
  have "(fst ` set rs \<union> fst ` set ?one) \<inter> fst ` set items = {}"
    using ins sub ni by (rule disjoint_step)
  then have disj: "fst ` set (rs @ ?one) \<inter> fst ` set items = {}"
    by (simp only: set_append image_Un)
  have "enum_loop env target uport community timeout (item # items)
           \<lparr>results = rs, success_flag = b, requested = rq\<rparr> =
        enum_loop env target uport community timeout items
           \<lparr>results = rs @ ?one, success_flag = (b \<or> ?one \<noteq> []), requested = rq @ [snd item]\<rparr>"
    by (simp only: enum_loop.simps query_oid_step [OF fresh])
  also have "\<dots> =
         \<lparr>results = (rs @ ?one) @ answered env target uport community timeout items,
          success_flag = ((b \<or> ?one \<noteq> [])
                          \<or> answered env target uport community timeout items \<noteq> []),
          requested = (rq @ [snd item]) @ map snd items\<rparr>"
    by (rule Cons.IH [OF d disj])
  also have "\<dots> =
         \<lparr>results = rs @ answered env target uport community timeout (item # items),
          success_flag = (b \<or> answered env target uport community timeout (item # items) \<noteq> []),
          requested = rq @ map snd (item # items)\<rparr>"
    unfolding answered_Cons [of env target uport community timeout item items]
    by (simp add: disj_assoc)
  finally show ?case .
qed

lemma distinct_oid_names: "distinct (map fst oids)"
  by (simp add: oids_def S_def)



text \<open>
  Claim C8. When pysnmp can be imported, the probe requests the six OIDs of the table,
  each once and in the order of the table, whatever the replies are: an exception, an
  error indication or an error status skips the OID and the loop goes on. The local
  \<open>results\<close> holds exactly the names whose reply yields a value, with that value. The
  first component returned is \<open>True\<close> if and only if at least one reply yields a value;
  the detail is then the line \<open>SNMPv1 enumeration succeeded:\<close> followed by the lines
  \<open>name: value\<close> joined by newlines, and otherwise the fixed message
  \<open>no valid responses for standard OIDs\<close>.
\<close>

theorem library_probe_collects_answers:
  assumes "pysnmp_installed env"
  shows "requested (final (try_pysnmp_enum env target uport community timeout)) =
           [S ''1.3.6.1.2.1.1.1.0'', S ''1.3.6.1.2.1.1.2.0'', S ''1.3.6.1.2.1.1.3.0'',
            S ''1.3.6.1.2.1.1.4.0'', S ''1.3.6.1.2.1.1.5.0'', S ''1.3.6.1.2.1.1.6.0'']
       \<and> results (final (try_pysnmp_enum env target uport community timeout)) =
           answered env target uport community timeout oids
       \<and> returned (try_pysnmp_enum env target uport community timeout) =
           (if answered env target uport community timeout oids \<noteq> [] then
              (Some True,
               S ''SNMPv1 enumeration succeeded:'' @ [10]
               @ join_lines (map (\<lambda>kv. fst kv @ S '': '' @ snd kv)
                               (answered env target uport community timeout oids)))
            else (Some False, S ''no valid responses for standard OIDs''))"
proof -
  have "enum_loop env target uport community timeout oids
           \<lparr>results = [], success_flag = False, requested = []\<rparr> =
         \<lparr>results = [] @ answered env target uport community timeout oids,
          success_flag = (False \<or> answered env target uport community timeout oids \<noteq> []),
          requested = [] @ map snd oids\<rparr>"
    by (rule enum_loop_answered) (simp_all add: distinct_oid_names)
  moreover have "map snd oids =
           [S ''1.3.6.1.2.1.1.1.0'', S ''1.3.6.1.2.1.1.2.0'', S ''1.3.6.1.2.1.1.3.0'',
            S ''1.3.6.1.2.1.1.4.0'', S ''1.3.6.1.2.1.1.5.0'', S ''1.3.6.1.2.1.1.6.0'']"
    by (simp add: oids_def)
  ultimately show ?thesis
    using assms by (simp add: try_pysnmp_enum_def Let_def)
qed



lemma two_answers_replies:
  "get_cmd two_answers t p c tm (S ''1.3.6.1.2.1.1.1.0'') = GetReply False False [Pretty (S ''Linux'')]"
  "get_cmd two_answers t p c tm (S ''1.3.6.1.2.1.1.2.0'') = GetReply False True [Pretty (S ''x'')]"
  "get_cmd two_answers t p c tm (S ''1.3.6.1.2.1.1.3.0'') = GetRaises"
  "get_cmd two_answers t p c tm (S ''1.3.6.1.2.1.1.4.0'') = GetRaises"
  "get_cmd two_answers t p c tm (S ''1.3.6.1.2.1.1.5.0'') = GetReply False False [Pretty (S ''gw'')]"
  "get_cmd two_answers t p c tm (S ''1.3.6.1.2.1.1.6.0'') = GetRaises"
  by (simp_all add: two_answers_def S_def)

lemma two_answers_answered:
  "answered two_answers t p c tm oids = [(S ''sysDescr'', S ''Linux''), (S ''sysName'', S ''gw'')]"
  by (simp add: answered_def oids_def two_answers_replies value_of_reply_def)


theorem library_probe_collects_answers_witness:
  "pysnmp_installed two_answers
   \<and> requested (final (try_pysnmp_enum two_answers (S ''10.0.0.1'') 161 (S ''public'') 2)) =
           [S ''1.3.6.1.2.1.1.1.0'', S ''1.3.6.1.2.1.1.2.0'', S ''1.3.6.1.2.1.1.3.0'',
            S ''1.3.6.1.2.1.1.4.0'', S ''1.3.6.1.2.1.1.5.0'', S ''1.3.6.1.2.1.1.6.0'']
   \<and> results (final (try_pysnmp_enum two_answers (S ''10.0.0.1'') 161 (S ''public'') 2)) =
           [(S ''sysDescr'', S ''Linux''), (S ''sysName'', S ''gw'')]
   \<and> returned (try_pysnmp_enum two_answers (S ''10.0.0.1'') 161 (S ''public'') 2) =
           (Some True, S ''SNMPv1 enumeration succeeded:'' @ [10]
                       @ S ''sysDescr: Linux'' @ [10] @ S ''sysName: gw'')"
proof -
  have i: "pysnmp_installed two_answers"
    by (simp add: two_answers_def)
  have j: "join_lines (map (\<lambda>kv. fst kv @ S '': '' @ snd kv)
                        [(S ''sysDescr'', S ''Linux''), (S ''sysName'', S ''gw'')]) =
           S ''sysDescr: Linux'' @ [10] @ S ''sysName: gw''"
    by (simp add: S_def)
  show ?thesis
    using library_probe_collects_answers [OF i, of "S ''10.0.0.1''" 161 "S ''public''" 2]
    by (simp only: two_answers_answered j i) simp
qed

end
